theory Spec2Isabelle
  imports Complex_Main
begin

section \<open>Numbers, flags and number formatting\<close>

text \<open>
  The feature record stores its flags as numbers (0 or 1, columns of type INTEGER in the
  \<^verbatim>\<open>message_features\<close> table) and the scorer tests them with JavaScript truthiness: a number
  is truthy iff it is not 0, and an optional number is truthy iff it is neither null nor 0.
  Scores and probabilities are JavaScript numbers; they are modelled as reals, so rounding
  error, NaN and the infinities of IEEE doubles are outside the model.
\<close>

definition truthy :: "int \<Rightarrow> bool" where
  "truthy n = (n \<noteq> 0)"

definition truthy_opt :: "int option \<Rightarrow> bool" where
  "truthy_opt x = (case x of None \<Rightarrow> False | Some n \<Rightarrow> n \<noteq> 0)"

text \<open>The decimal digit \<open>d\<close>, for \<open>d < 10\<close> (the only arguments \<open>digits_of\<close> passes).\<close>

definition digit_char :: "nat \<Rightarrow> char" where
  "digit_char d = ''0123456789'' ! d"

fun digits_of :: "nat \<Rightarrow> string" where
  "digits_of n = (if n < 10 then [digit_char n] else digits_of (n div 10) @ [digit_char (n mod 10)])"

declare digits_of.simps [simp del]

definition int_to_string :: "int \<Rightarrow> string" where
  "int_to_string i = (if i < 0 then CHR ''-'' # digits_of (nat (- i)) else digits_of (nat i))"

text \<open>
  \<open>toFixed f x\<close> is Number.prototype.toFixed with \<open>f\<close> fraction digits: the integer
  \<open>n\<close> nearest to \<open>x * 10^f\<close> (the larger one on a tie) is printed with a decimal point
  before its last \<open>f\<close> digits, padded with zeros on the left. JavaScript switches to
  exponent notation from \<open>10^21\<close> on, which the model does not do.
\<close>

definition toFixed :: "nat \<Rightarrow> real \<Rightarrow> string" where
  "toFixed f x =
     (let neg = (x < 0);
          a = (if neg then - x else x);
          n = nat \<lfloor>a * 10 ^ f + 1 / 2\<rfloor>;
          m = (if n = 0 then ''0'' else digits_of n);
          body = (if f = 0 then m
                  else (let m' = (if length m \<le> f then replicate (f + 1 - length m) CHR ''0'' @ m else m);
                            k = length m' - f
                        in take k m' @ ''.'' @ drop k m'))
      in if neg then CHR ''-'' # body else body)"

section \<open>RelationshipScorer\<close>

text \<open>
  The interaction statistics are read from the message store by analyzeEmailHistory; the
  scorer is modelled from the point where it holds them. The record of the five
  component scores is declared first, so the unqualified \<open>two_way_exchanges\<close> is the
  counter of the statistics.
\<close>

record ScoreComponents =
  reply_frequency :: real
  two_way_exchanges :: real
  recency :: real
  email_volume :: real
  manual_vip :: real

record EmailHistoryStats =
  emails_received :: int
  emails_sent_to :: int
  user_replies_count :: int
  sender_replies_count :: int
  two_way_exchanges :: int
  first_contact_epoch :: "int option"
  last_contact_epoch :: "int option"
  avg_reply_latency_minutes :: "real option"
  total_interaction_days :: int

record RelationshipScore =
  sender_email :: string
  score :: real
  is_vip :: int
  components :: ScoreComponents
  stats :: EmailHistoryStats

definition W_REPLY_FREQUENCY :: real where "W_REPLY_FREQUENCY = 35 / 100"
definition W_TWO_WAY_EXCHANGES :: real where "W_TWO_WAY_EXCHANGES = 25 / 100"
definition W_RECENCY :: real where "W_RECENCY = 20 / 100"
definition W_EMAIL_VOLUME :: real where "W_EMAIL_VOLUME = 10 / 100"
definition W_MANUAL_VIP :: real where "W_MANUAL_VIP = 10 / 100"

definition IDEAL_REPLY_RATIO :: real where "IDEAL_REPLY_RATIO = 1 / 2"
definition SPAM_THRESHOLD :: real where "SPAM_THRESHOLD = 100"
definition RECENCY_DECAY_DAYS :: real where "RECENCY_DECAY_DAYS = 90"

definition scoreReplyFrequency :: "EmailHistoryStats \<Rightarrow> real" where
  "scoreReplyFrequency st =
     (if emails_received st = 0 then 1 / 2
      else (let replyRatio = real_of_int (user_replies_count st) / real_of_int (emails_received st);
                deviation = \<bar>replyRatio - IDEAL_REPLY_RATIO\<bar>
            in max 0 (1 - deviation * 2)))"

definition scoreTwoWayExchanges :: "EmailHistoryStats \<Rightarrow> real" where
  "scoreTwoWayExchanges st =
     (let totalEmails = emails_received st + emails_sent_to st
      in if totalEmails = 0 then 0
         else (let exchangeRatio =
                     real_of_int (EmailHistoryStats.two_way_exchanges st) / real_of_int totalEmails
               in min 1 (exchangeRatio * 2)))"

text \<open>\<open>clock_ms\<close> is the value of Date.now(), in milliseconds.\<close>

definition scoreRecency :: "int \<Rightarrow> EmailHistoryStats \<Rightarrow> real" where
  "scoreRecency clock_ms st =
     (case last_contact_epoch st of
        None \<Rightarrow> 0
      | Some l \<Rightarrow>
          if l = 0 then 0
          else (let now = clock_ms div 1000;
                    daysSinceContact = real_of_int (now - l) / (24 * 60 * 60);
                    decayFactor = daysSinceContact / RECENCY_DECAY_DAYS
                in max 0 (min 1 (exp (- decayFactor)))))"

definition scoreEmailVolume :: "EmailHistoryStats \<Rightarrow> real" where
  "scoreEmailVolume st =
     (if emails_received st < 5 then real_of_int (emails_received st) / 5
      else if emails_received st \<le> 50 then 1
      else (let penalty = real_of_int (emails_received st - 50) / SPAM_THRESHOLD
            in max 0 (1 - penalty)))"

definition calculateRelationshipScore ::
    "int \<Rightarrow> EmailHistoryStats \<Rightarrow> string \<Rightarrow> bool \<Rightarrow> RelationshipScore" where
  "calculateRelationshipScore clock_ms st senderEmail isManualVIP =
     (let replyFrequencyScore = scoreReplyFrequency st;
          twoWayExchangeScore = scoreTwoWayExchanges st;
          recencyScore = scoreRecency clock_ms st;
          emailVolumeScore = scoreEmailVolume st;
          manualVIPScore = (if isManualVIP then 1 else 0);
          compositeScore =
            replyFrequencyScore * W_REPLY_FREQUENCY +
            twoWayExchangeScore * W_TWO_WAY_EXCHANGES +
            recencyScore * W_RECENCY +
            emailVolumeScore * W_EMAIL_VOLUME +
            manualVIPScore * W_MANUAL_VIP;
          isNewSender = (emails_received st = 0 \<and> emails_sent_to st = 0);
          finalScore = (if isNewSender then 1 / 2 else max 0 (min 1 compositeScore))
      in \<lparr>sender_email = senderEmail,
          score = finalScore,
          is_vip = (if isManualVIP then 1 else 0),
          components =
            \<lparr>reply_frequency = replyFrequencyScore,
             ScoreComponents.two_way_exchanges = twoWayExchangeScore,
             recency = recencyScore,
             email_volume = emailVolumeScore,
             manual_vip = manualVIPScore\<rparr>,
          stats = st\<rparr>)"

text \<open>Statistics of a sender with no message in either direction (the test suite's new sender).\<close>

definition no_history :: EmailHistoryStats where
  "no_history =
     \<lparr>emails_received = 0, emails_sent_to = 0, user_replies_count = 0, sender_replies_count = 0,
      two_way_exchanges = 0, first_contact_epoch = None, last_contact_epoch = None,
      avg_reply_latency_minutes = None, total_interaction_days = 0\<rparr>"

section \<open>The data model of the priority scorer\<close>

datatype intent = Request | Inform | Schedule | Confirm

datatype category = Urgent | Important | Normal | Low | Spam

record PriorityScore =
  email_id :: string
  score :: int
  category :: category
  confidence :: real
  reasoning :: "string list"
  feature_weights :: "(string \<times> real) list"

text \<open>
  The feature record, with the fields of the \<^verbatim>\<open>message_features\<close> table. It is declared
  after \<open>PriorityScore\<close>, so the unqualified \<open>email_id\<close> is the one of the features.
\<close>

record MessageFeatures =
  email_id :: string
  is_newsletter :: int
  is_auto_generated :: int
  has_list_unsubscribe :: int
  has_list_id :: int
  has_auto_submitted :: int
  has_calendar :: int
  calendar_start_epoch :: "int option"
  otp_detected :: int
  otp_age_minutes :: "int option"
  relationship_score :: real
  is_vip_sender :: int
  reply_count_from_user :: int
  reply_count_to_user :: int
  last_interaction_epoch :: "int option"
  thread_you_owe :: int
  thread_recency_minutes :: "int option"
  thread_length :: int
  explicit_ask :: int
  deadline_epoch :: "int option"
  time_to_deadline_min :: "int option"
  content_intent :: "intent option"
  reply_need_prob :: real
  reply_latency_bucket :: int

text \<open>The local variables of calculatePriority, threaded through its statements.\<close>

record vars =
  v_score :: real
  v_confidence :: real
  v_reasoning :: "string list"
  v_featureWeights :: "(string \<times> real) list"

text \<open>
  \<open>featureWeights[k] = x\<close> on a JavaScript object: an existing key keeps its place and
  takes the new value, a new key goes to the end.
\<close>

fun assign :: "string \<Rightarrow> real \<Rightarrow> (string \<times> real) list \<Rightarrow> (string \<times> real) list" where
  "assign k x [] = [(k, x)]"
| "assign k x (p # ps) = (if fst p = k then (k, x) # ps else p # assign k x ps)"

definition apply_rule :: "real \<Rightarrow> string \<Rightarrow> string \<Rightarrow> vars \<Rightarrow> vars" where
  "apply_rule pts reason key v =
     v\<lparr>v_score := v_score v + pts,
       v_reasoning := v_reasoning v @ [reason],
       v_featureWeights := assign key pts (v_featureWeights v)\<rparr>"

subsection \<open>Weights and category boundaries\<close>

definition NEWSLETTER_PENALTY :: real where "NEWSLETTER_PENALTY = - 30"
definition AUTO_GENERATED_PENALTY :: real where "AUTO_GENERATED_PENALTY = - 20"
definition OTP_PENALTY :: real where "OTP_PENALTY = - 35"
definition RELATIONSHIP_MAX :: real where "RELATIONSHIP_MAX = 30"
definition EXPLICIT_ASK :: real where "EXPLICIT_ASK = 20"
definition DEADLINE_BONUS :: real where "DEADLINE_BONUS = 15"
definition URGENT_DEADLINE_BONUS :: real where "URGENT_DEADLINE_BONUS = 25"
definition VIP_SENDER :: real where "VIP_SENDER = 15"
definition THREAD_YOU_OWE :: real where "THREAD_YOU_OWE = 20"
definition REPLY_NEED_MAX :: real where "REPLY_NEED_MAX = 25"
definition INTENT_CONFIRM :: real where "INTENT_CONFIRM = 10"
definition INTENT_REQUEST :: real where "INTENT_REQUEST = 5"
definition INTENT_INFORM :: real where "INTENT_INFORM = - 5"

definition CAT_URGENT :: real where "CAT_URGENT = 90"
definition CAT_IMPORTANT :: real where "CAT_IMPORTANT = 70"
definition CAT_NORMAL :: real where "CAT_NORMAL = 50"
definition CAT_LOW :: real where "CAT_LOW = 30"

section \<open>PriorityScorer.calculatePriority, statement by statement\<close>

subsection \<open>Phase 1: negative signals\<close>

definition newsletter_rule :: "MessageFeatures \<Rightarrow> vars \<Rightarrow> vars" where
  "newsletter_rule f v =
     (if truthy (is_newsletter f)
      then apply_rule NEWSLETTER_PENALTY ''Newsletter detected (RFC 2369/2919)'' ''is_newsletter'' v
      else v)"

definition auto_generated_rule :: "MessageFeatures \<Rightarrow> vars \<Rightarrow> vars" where
  "auto_generated_rule f v =
     (if truthy (is_auto_generated f) \<and> \<not> truthy (has_calendar f)
      then apply_rule AUTO_GENERATED_PENALTY ''Auto-generated email (RFC 3834)'' ''is_auto_generated'' v
      else v)"

definition otp_rule :: "MessageFeatures \<Rightarrow> vars \<Rightarrow> vars" where
  "otp_rule f v =
     (if truthy (otp_detected f)
      then (let v1 = apply_rule OTP_PENALTY ''OTP/2FA code detected (low interaction priority)''
                       ''otp_detected'' v
            in v1\<lparr>v_confidence := min (v_confidence v1) (6 / 10)\<rparr>)
      else v)"

subsection \<open>Phase 2: positive signals\<close>

definition relationship_rule :: "MessageFeatures \<Rightarrow> vars \<Rightarrow> vars" where
  "relationship_rule f v =
     (if relationship_score f > 0
      then (let relationshipPoints = relationship_score f * RELATIONSHIP_MAX;
                v1 = v\<lparr>v_score := v_score v + relationshipPoints\<rparr>;
                v2 = (if relationship_score f > 7 / 10
                      then v1\<lparr>v_reasoning := v_reasoning v1 @
                             [''Strong relationship with sender (score: '' @
                              toFixed 2 (relationship_score f) @ '')'']\<rparr>
                      else if relationship_score f > 4 / 10
                      then v1\<lparr>v_reasoning := v_reasoning v1 @
                             [''Moderate relationship with sender (score: '' @
                              toFixed 2 (relationship_score f) @ '')'']\<rparr>
                      else v1)
            in v2\<lparr>v_featureWeights := assign ''relationship_score'' relationshipPoints
                                        (v_featureWeights v2)\<rparr>)
      else v)"

definition vip_rule :: "MessageFeatures \<Rightarrow> vars \<Rightarrow> vars" where
  "vip_rule f v =
     (if truthy (is_vip_sender f)
      then apply_rule VIP_SENDER ''VIP sender (manually flagged)'' ''is_vip_sender'' v
      else v)"

definition explicit_ask_rule :: "MessageFeatures \<Rightarrow> vars \<Rightarrow> vars" where
  "explicit_ask_rule f v =
     (if truthy (explicit_ask f)
      then apply_rule EXPLICIT_ASK ''Contains explicit question or request'' ''explicit_ask'' v
      else v)"

text \<open>The inner test of the deadline rule: a known number of minutes, below 24 hours.\<close>

definition urgent_deadline :: "MessageFeatures \<Rightarrow> bool" where
  "urgent_deadline f = (case time_to_deadline_min f of None \<Rightarrow> False | Some t \<Rightarrow> t < 1440)"

definition deadline_rule :: "MessageFeatures \<Rightarrow> vars \<Rightarrow> vars" where
  "deadline_rule f v =
     (if truthy_opt (deadline_epoch f)
      then (let v1 = apply_rule DEADLINE_BONUS ''Email has deadline'' ''deadline_epoch'' v
            in (case time_to_deadline_min f of
                  None \<Rightarrow> v1
                | Some t \<Rightarrow>
                    if t < 1440
                    then (let hours = t div 60;
                              v2 = apply_rule URGENT_DEADLINE_BONUS
                                     (''Deadline in '' @ int_to_string hours @ ''h (urgent)'')
                                     ''time_to_deadline_urgent'' v1
                          in v2\<lparr>v_confidence := min (v_confidence v2 + 1 / 10) 1\<rparr>)
                    else v1))
      else v)"

definition thread_rule :: "MessageFeatures \<Rightarrow> vars \<Rightarrow> vars" where
  "thread_rule f v =
     (if truthy (thread_you_owe f)
      then apply_rule THREAD_YOU_OWE ''Conversation continuation (you owe a reply)'' ''thread_you_owe'' v
      else v)"

definition reply_rule :: "MessageFeatures \<Rightarrow> vars \<Rightarrow> vars" where
  "reply_rule f v =
     (if reply_need_prob f > 1 / 2
      then apply_rule (reply_need_prob f * REPLY_NEED_MAX)
             (''High reply probability ('' @ toFixed 0 (reply_need_prob f * 100) @ ''%)'')
             ''reply_need_prob'' v
      else v)"

subsection \<open>Phase 3: intent modifiers\<close>

definition intent_rule :: "MessageFeatures \<Rightarrow> vars \<Rightarrow> vars" where
  "intent_rule f v =
     (if content_intent f = Some Confirm
      then apply_rule INTENT_CONFIRM ''Requires confirmation'' ''intent_confirm'' v
      else if content_intent f = Some Request
      then apply_rule INTENT_REQUEST ''Action request'' ''intent_request'' v
      else if content_intent f = Some Inform
      then apply_rule INTENT_INFORM ''Informational (lower priority)'' ''intent_inform'' v
      else v)"

subsection \<open>Phase 4: special cases and overrides\<close>

text \<open>
  The calendar override reads the clock: \<open>clock_ms\<close> is the value of Date.now(), in
  milliseconds. \<open>upcoming_event\<close> is the test \<open>hoursToEvent > 0 && hoursToEvent < 24\<close>
  under the guard \<open>has_calendar && calendar_start_epoch\<close>.
\<close>

definition hoursToEvent :: "int \<Rightarrow> int \<Rightarrow> real" where
  "hoursToEvent clock_ms start = real_of_int (start - clock_ms div 1000) / 3600"

definition upcoming_event :: "int \<Rightarrow> MessageFeatures \<Rightarrow> bool" where
  "upcoming_event clock_ms f =
     (truthy (has_calendar f) \<and>
      (case calendar_start_epoch f of
         None \<Rightarrow> False
       | Some c \<Rightarrow> c \<noteq> 0 \<and> hoursToEvent clock_ms c > 0 \<and> hoursToEvent clock_ms c < 24))"

definition calendar_rule :: "int \<Rightarrow> MessageFeatures \<Rightarrow> vars \<Rightarrow> vars" where
  "calendar_rule clock_ms f v =
     (case calendar_start_epoch f of
        None \<Rightarrow> v
      | Some c \<Rightarrow>
          if truthy (has_calendar f) \<and> c \<noteq> 0
          then (let h = hoursToEvent clock_ms c
                in if h > 0 \<and> h < 24
                   then v\<lparr>v_score := max (v_score v) CAT_IMPORTANT,
                          v_reasoning := v_reasoning v @
                            [''Calendar invite: event in '' @ int_to_string \<lfloor>h\<rfloor> @ ''h''],
                          v_confidence := min (v_confidence v + 15 / 100) 1\<rparr>
                   else v)
          else v)"

definition security_alert :: "MessageFeatures \<Rightarrow> bool" where
  "security_alert f =
     (truthy_opt (deadline_epoch f) \<and>
      (case time_to_deadline_min f of None \<Rightarrow> False | Some t \<Rightarrow> t < 360) \<and>
      truthy (explicit_ask f))"

definition security_rule :: "MessageFeatures \<Rightarrow> vars \<Rightarrow> vars" where
  "security_rule f v =
     (if security_alert f
      then v\<lparr>v_score := max (v_score v) (CAT_URGENT - 5),
             v_reasoning := v_reasoning v @ [''Potential security alert (urgent + short deadline)''],
             v_confidence := 7 / 10\<rparr>
      else v)"

subsection \<open>Phase 5: clamp, categorize, round\<close>

definition categorize :: "real \<Rightarrow> category" where
  "categorize s =
     (if s \<ge> CAT_URGENT then Urgent
      else if s \<ge> CAT_IMPORTANT then Important
      else if s \<ge> CAT_NORMAL then Normal
      else if s \<ge> CAT_LOW then Low
      else Spam)"

text \<open>Math.round: the nearest integer, a tie going up.\<close>

definition math_round :: "real \<Rightarrow> int" where
  "math_round x = \<lfloor>x + 1 / 2\<rfloor>"

definition finalize :: "MessageFeatures \<Rightarrow> vars \<Rightarrow> PriorityScore" where
  "finalize f v =
     (let s = max 0 (min 100 (v_score v));
          cat = categorize s;
          c = max 0 (min 1 (v_confidence v))
      in \<lparr>PriorityScore.email_id = MessageFeatures.email_id f,
          score = math_round s,
          category = cat,
          confidence = c,
          reasoning = v_reasoning v,
          feature_weights = v_featureWeights v\<rparr>)"

definition initial_vars :: vars where
  "initial_vars = \<lparr>v_score = 50, v_confidence = 8 / 10, v_reasoning = [], v_featureWeights = []\<rparr>"

definition additive_phases :: "MessageFeatures \<Rightarrow> vars" where
  "additive_phases f =
     intent_rule f (reply_rule f (thread_rule f (deadline_rule f (explicit_ask_rule f
       (vip_rule f (relationship_rule f (otp_rule f (auto_generated_rule f
         (newsletter_rule f initial_vars)))))))))"

definition calculatePriority :: "int \<Rightarrow> MessageFeatures \<Rightarrow> PriorityScore" where
  "calculatePriority clock_ms f =
     finalize f (security_rule f (calendar_rule clock_ms f (additive_phases f)))"

text \<open>The baseline record of the test suite: every field at its no-signal default.\<close>

definition baseline :: "string \<Rightarrow> MessageFeatures" where
  "baseline eid =
     \<lparr>email_id = eid, is_newsletter = 0, is_auto_generated = 0, has_list_unsubscribe = 0,
      has_list_id = 0, has_auto_submitted = 0, has_calendar = 0, calendar_start_epoch = None,
      otp_detected = 0, otp_age_minutes = None, relationship_score = 0, is_vip_sender = 0,
      reply_count_from_user = 0, reply_count_to_user = 0, last_interaction_epoch = None,
      thread_you_owe = 0, thread_recency_minutes = None, thread_length = 1, explicit_ask = 0,
      deadline_epoch = None, time_to_deadline_min = None, content_intent = None,
      reply_need_prob = 0, reply_latency_bucket = 3\<rparr>"

section \<open>ContentAnalyzer.detectUrgency\<close>

subsection \<open>The regular expressions of the urgency tables\<close>

text \<open>
  The urgency patterns use literals, character classes, alternation, an optional group,
  a repetition of one character with a lower bound and the word boundary \<open>\b\<close>; the
  matcher
  covers this fragment. A position is the character before the cursor (if any) and the
  rest of the text. \<open>rmatch\<close> returns every position a match of the expression can end
  at, so \<open>rx_test\<close> holds iff RegExp.prototype.test would find a match somewhere in the
  text. Characters are 8-bit; the patterns name ASCII characters only, and a character
  outside ASCII is a non-word character that equals no literal, with or without the
  \<open>i\<close> flag.
\<close>

definition UPPER :: string where "UPPER = ''ABCDEFGHIJKLMNOPQRSTUVWXYZ''"
definition LOWER :: string where "LOWER = ''abcdefghijklmnopqrstuvwxyz''"

definition is_word :: "char \<Rightarrow> bool" where
  "is_word c = (c \<in> set (UPPER @ LOWER @ ''0123456789_''))"

text \<open>Canonicalize of the \<open>i\<close> flag: a lower-case ASCII letter becomes its capital.\<close>

definition canon :: "char \<Rightarrow> char" where
  "canon c = (case map_of (zip LOWER UPPER) c of Some u \<Rightarrow> u | None \<Rightarrow> c)"

datatype atom = Lit char | Cls string

datatype rx =
    Eps
  | Atom atom
  | WordB
  | Seq rx rx
  | Alt rx rx
  | Opt rx
  | AtLeast nat atom

fun atom_ok :: "bool \<Rightarrow> atom \<Rightarrow> char \<Rightarrow> bool" where
  "atom_ok ci (Lit x) c = (if ci then canon c = canon x else c = x)"
| "atom_ok ci (Cls xs) c = (if ci then canon c \<in> set (map canon xs) else c \<in> set xs)"

type_synonym pos = "char option \<times> string"

definition at_boundary :: "pos \<Rightarrow> bool" where
  "at_boundary p =
     ((case fst p of None \<Rightarrow> False | Some c \<Rightarrow> is_word c) \<noteq>
      (case snd p of [] \<Rightarrow> False | c # _ \<Rightarrow> is_word c))"

fun run_atom :: "bool \<Rightarrow> atom \<Rightarrow> nat \<Rightarrow> char option \<Rightarrow> string \<Rightarrow> pos list" where
  "run_atom ci a n p [] = (if n = 0 then [(p, [])] else [])"
| "run_atom ci a n p (c # cs) =
     (if n = 0 then [(p, c # cs)] else []) @
     (if atom_ok ci a c then run_atom ci a (n - 1) (Some c) cs else [])"

fun rmatch :: "bool \<Rightarrow> rx \<Rightarrow> pos \<Rightarrow> pos list" where
  "rmatch ci Eps p = [p]"
| "rmatch ci (Atom a) p =
     (case snd p of [] \<Rightarrow> [] | c # cs \<Rightarrow> if atom_ok ci a c then [(Some c, cs)] else [])"
| "rmatch ci WordB p = (if at_boundary p then [p] else [])"
| "rmatch ci (Seq r1 r2) p = concat (map (rmatch ci r2) (rmatch ci r1 p))"
| "rmatch ci (Alt r1 r2) p = rmatch ci r1 p @ rmatch ci r2 p"
| "rmatch ci (Opt r) p = rmatch ci r p @ [p]"
| "rmatch ci (AtLeast n a) p = run_atom ci a n (fst p) (snd p)"

text \<open>The search for a match tries every start position, from left to right.\<close>

fun search :: "bool \<Rightarrow> rx \<Rightarrow> char option \<Rightarrow> string \<Rightarrow> bool" where
  "search ci r p [] = (if rmatch ci r (p, []) = [] then False else True)"
| "search ci r p (c # cs) =
     (if rmatch ci r (p, c # cs) = [] then search ci r (Some c) cs else True)"

record pattern =
  source :: string
  ignoreCase :: bool
  body :: rx

definition rx_test :: "pattern \<Rightarrow> string \<Rightarrow> bool" where
  "rx_test pat text = search (ignoreCase pat) (body pat) None text"

fun str :: "string \<Rightarrow> rx" where
  "str [] = Eps"
| "str (c # cs) = Seq (Atom (Lit c)) (str cs)"

definition any_of :: "rx \<Rightarrow> rx list \<Rightarrow> rx" where
  "any_of r rs = foldl Alt r rs"

text \<open>\<open>\b(...)\b\<close>: a group between two word boundaries.\<close>

definition word_bounded :: "rx \<Rightarrow> rx" where
  "word_bounded r = Seq WordB (Seq r WordB)"

definition bs :: string where "bs = [CHR 0x5C]"

definition CRITICAL :: "pattern list" where
  "CRITICAL =
     [\<lparr>source = bs @ ''b(urgent|emergency|critical|immediate(?:ly)?|asap|right away)'' @ bs @ ''b'',
       ignoreCase = True,
       body = word_bounded (any_of (str ''urgent'')
                [str ''emergency'', str ''critical'',
                 Seq (str ''immediate'') (Opt (str ''ly'')), str ''asap'', str ''right away''])\<rparr>,
      \<lparr>source = bs @ ''b(time[- ]sensitive|time critical|priority)'' @ bs @ ''b'',
       ignoreCase = True,
       body = word_bounded (any_of (Seq (str ''time'') (Seq (Atom (Cls ''- '')) (str ''sensitive'')))
                [str ''time critical'', str ''priority''])\<rparr>,
      \<lparr>source = bs @ ''b(action required|response required|approval required)'' @ bs @ ''b'',
       ignoreCase = True,
       body = word_bounded (any_of (str ''action required'')
                [str ''response required'', str ''approval required''])\<rparr>,
      \<lparr>source = ''!!!+'',
       ignoreCase = False,
       body = Seq (str ''!!'') (AtLeast 1 (Lit CHR ''!''))\<rparr>,
      \<lparr>source = bs @ ''bNOW'' @ bs @ ''b'',
       ignoreCase = False,
       body = word_bounded (str ''NOW'')\<rparr>]"

definition HIGH :: "pattern list" where
  "HIGH =
     [\<lparr>source = bs @ ''b(soon|quickly|prompt(?:ly)?|expedite)'' @ bs @ ''b'',
       ignoreCase = True,
       body = word_bounded (any_of (str ''soon'')
                [str ''quickly'', Seq (str ''prompt'') (Opt (str ''ly'')), str ''expedite''])\<rparr>,
      \<lparr>source = bs @ ''b(high priority|important)'' @ bs @ ''b'',
       ignoreCase = True,
       body = word_bounded (any_of (str ''high priority'') [str ''important''])\<rparr>,
      \<lparr>source = bs @ ''b(need(?:ed)? (?:by|before))'' @ bs @ ''b'',
       ignoreCase = True,
       body = word_bounded (Seq (str ''need'') (Seq (Opt (str ''ed''))
                (Seq (str '' '') (Alt (str ''by'') (str ''before'')))))\<rparr>,
      \<lparr>source = bs @ ''b(deadline|due date)'' @ bs @ ''b'',
       ignoreCase = True,
       body = word_bounded (any_of (str ''deadline'') [str ''due date''])\<rparr>]"

definition MEDIUM :: "pattern list" where
  "MEDIUM =
     [\<lparr>source = bs @ ''b(timely|at your earliest convenience)'' @ bs @ ''b'',
       ignoreCase = True,
       body = word_bounded (any_of (str ''timely'') [str ''at your earliest convenience''])\<rparr>,
      \<lparr>source = bs @ ''b(follow[- ]?up|reminder)'' @ bs @ ''b'',
       ignoreCase = True,
       body = word_bounded (any_of (Seq (str ''follow'') (Seq (Opt (Atom (Cls ''- ''))) (str ''up'')))
                [str ''reminder''])\<rparr>,
      \<lparr>source = bs @ ''b(pending|waiting for)'' @ bs @ ''b'',
       ignoreCase = True,
       body = word_bounded (any_of (str ''pending'') [str ''waiting for''])\<rparr>]"

text \<open>\<open>/\b[A-Z]{3,}\b/g\<close>, the pattern of the test on the subject.\<close>

definition ALL_CAPS :: pattern where
  "ALL_CAPS =
     \<lparr>source = bs @ ''b[A-Z]{3,}'' @ bs @ ''b'',
      ignoreCase = False,
      body = word_bounded (AtLeast 3 (Cls UPPER))\<rparr>"

subsection \<open>detectUrgency\<close>

record UrgencyResult =
  urgency_level :: nat
  urgency_signals :: "string list"

text \<open>
  One of the three loops over a tier of patterns: each pattern that matches the text adds
  \<open>pts\<close> to the score and pushes its source onto the signals.
\<close>

fun check_signals :: "nat \<Rightarrow> pattern list \<Rightarrow> string \<Rightarrow> nat \<times> string list \<Rightarrow> nat \<times> string list" where
  "check_signals pts [] text acc = acc"
| "check_signals pts (p # ps) text acc =
     check_signals pts ps text
       (if rx_test p text then (fst acc + pts, snd acc @ [source p]) else acc)"

text \<open>
  \<open>subject.match(/\b[A-Z]{3,}\b/g)\<close> is null when the pattern does not occur and the
  non-empty array of its occurrences otherwise, so the guard
  \<open>allCapsWords && allCapsWords.length > 0\<close> holds iff the pattern occurs in the subject.
\<close>

definition detectUrgency :: "string \<Rightarrow> string \<Rightarrow> UrgencyResult" where
  "detectUrgency subject bodyText =
     (let fullText = subject @ [CHR 0x0A] @ bodyText;
          a1 = check_signals 5 CRITICAL fullText (0, []);
          a2 = check_signals 3 HIGH fullText a1;
          a3 = check_signals 1 MEDIUM fullText a2;
          a4 = (if rx_test ALL_CAPS subject
                then (fst a3 + 2, snd a3 @ [''ALL CAPS in subject''])
                else a3)
      in \<lparr>urgency_level = min 10 (fst a4), urgency_signals = snd a4\<rparr>)"

subsection \<open>The urgency rule as the specification words it\<close>

text \<open>
  The specification gives the fourth signal as "three or more consecutive capitalized
  words in the subject". \<open>spec_urgency_level\<close> follows these words, to be compared with
  \<open>detectUrgency\<close>: the words of the subject are its maximal runs of non-space
  characters, a word is capitalized when it starts with a capital letter, and a tier's
  terms are the patterns of the tier.
\<close>

fun split_words :: "string \<Rightarrow> string \<Rightarrow> string list" where
  "split_words w [] = (if w = [] then [] else [w])"
| "split_words w (c # cs) =
     (if c = CHR '' '' then (if w = [] then [] else [w]) @ split_words [] cs
      else split_words (w @ [c]) cs)"

definition capitalized :: "string \<Rightarrow> bool" where
  "capitalized w = (case w of [] \<Rightarrow> False | c # _ \<Rightarrow> c \<in> set UPPER)"

fun three_in_a_row :: "bool list \<Rightarrow> bool" where
  "three_in_a_row (a # b # c # xs) = ((a \<and> b \<and> c) \<or> three_in_a_row (b # c # xs))"
| "three_in_a_row xs = False"

definition matched :: "pattern list \<Rightarrow> string \<Rightarrow> nat" where
  "matched ps text = length (filter (\<lambda>p. rx_test p text) ps)"

definition spec_urgency_level :: "string \<Rightarrow> string \<Rightarrow> nat" where
  "spec_urgency_level subject bodyText =
     (let fullText = subject @ [CHR 0x0A] @ bodyText
      in min 10 (5 * matched CRITICAL fullText + 3 * matched HIGH fullText +
                 1 * matched MEDIUM fullText +
                 (if three_in_a_row (map capitalized (split_words [] subject)) then 2 else 0)))"

section \<open>ContentAnalyzer.extractDeadlines\<close>

text \<open>
  The deadline fields of a feature record are the two fields extractDeadlines returns.
  The date-phrase parser is external: \<open>patternParsed\<close> holds, for each deadline pattern
  in turn, the date the parser returned for the matched phrase (none when the pattern does
  not match or the phrase does not parse), and \<open>generalParsed\<close> the dates it found in
  the text as a whole. Dates and the clock \<open>now\<close> are milliseconds since the Unix
  epoch, as Date.getTime() gives them. Only the dates of the general parse are required
  to lie in the future; a date from a deadline pattern is taken as it is.
\<close>

definition keep_earliest :: "int option \<Rightarrow> int \<Rightarrow> int option" where
  "keep_earliest earliestDeadline parsed =
     (case earliestDeadline of
        None \<Rightarrow> Some parsed
      | Some e \<Rightarrow> if parsed < e then Some parsed else Some e)"

fun pattern_loop :: "int option \<Rightarrow> int option list \<Rightarrow> int option" where
  "pattern_loop earliestDeadline [] = earliestDeadline"
| "pattern_loop earliestDeadline (None # ps) = pattern_loop earliestDeadline ps"
| "pattern_loop earliestDeadline (Some parsed # ps) =
     pattern_loop (keep_earliest earliestDeadline parsed) ps"

fun general_loop :: "int \<Rightarrow> int option \<Rightarrow> int list \<Rightarrow> int option" where
  "general_loop now earliestDeadline [] = earliestDeadline"
| "general_loop now earliestDeadline (parsedDate # ds) =
     general_loop now
       (if parsedDate > now then keep_earliest earliestDeadline parsedDate else earliestDeadline)
       ds"

definition extractDeadlines :: "int \<Rightarrow> int option list \<Rightarrow> int list \<Rightarrow> int option \<times> int option" where
  "extractDeadlines now patternParsed generalParsed =
     (case general_loop now (pattern_loop None patternParsed) generalParsed of
        None \<Rightarrow> (None, None)
      | Some earliestDeadline \<Rightarrow>
          (let deadlineEpoch = earliestDeadline div 1000;
               timeToDeadlineMs = earliestDeadline - now;
               timeToDeadlineMin = timeToDeadlineMs div (1000 * 60)
           in (Some deadlineEpoch,
               if timeToDeadlineMin > 0 then Some timeToDeadlineMin else None)))"

section \<open>Concrete inputs\<close>

text \<open>Feature records and clock readings used to evaluate the scorer.\<close>

definition near_boundary :: MessageFeatures where
  "near_boundary = (baseline ''m-1'')\<lparr>relationship_score := 21 / 32, explicit_ask := 1\<rparr>"

definition invite_at :: "int \<Rightarrow> MessageFeatures" where
  "invite_at start = (baseline ''m-2'')\<lparr>has_calendar := 1, calendar_start_epoch := Some start\<rparr>"

text \<open>
  A message whose deadline phrase parses to midnight UTC of 1 January 1970 (say "due
  1 January 1970 00:00 UTC"), with every other field at its default: extractDeadlines, run
  at any later time, returns the deadline epoch 0 and no minutes.
\<close>

definition deadline_at_unix_epoch :: MessageFeatures where
  "deadline_at_unix_epoch =
     (baseline ''m-3'')\<lparr>deadline_epoch := Some 0, time_to_deadline_min := None\<rparr>"

definition deadline_after_unix_epoch :: MessageFeatures where
  "deadline_after_unix_epoch =
     (baseline ''m-4'')\<lparr>deadline_epoch := Some 1, time_to_deadline_min := None\<rparr>"


definition far_deadline :: MessageFeatures where
  "far_deadline =
     (baseline ''m-6'')\<lparr>deadline_epoch := Some 1700172800, time_to_deadline_min := Some 2880,
                        relationship_score := 9 / 10, explicit_ask := 1,
                        content_intent := Some Request\<rparr>"

definition deadline_in_30_min :: MessageFeatures where
  "deadline_in_30_min =
     (baseline ''m-7'')\<lparr>deadline_epoch := Some 1700001800, time_to_deadline_min := Some 30\<rparr>"

section \<open>Properties of the priority scorer\<close>

lemmas weight_defs =
  NEWSLETTER_PENALTY_def AUTO_GENERATED_PENALTY_def OTP_PENALTY_def RELATIONSHIP_MAX_def
  EXPLICIT_ASK_def DEADLINE_BONUS_def URGENT_DEADLINE_BONUS_def VIP_SENDER_def
  THREAD_YOU_OWE_def REPLY_NEED_MAX_def INTENT_CONFIRM_def INTENT_REQUEST_def
  INTENT_INFORM_def CAT_URGENT_def CAT_IMPORTANT_def CAT_NORMAL_def CAT_LOW_def

subsection \<open>What each statement does to the score and to the confidence\<close>

lemma apply_rule_sel [simp]:
  "v_score (apply_rule p r k v) = v_score v + p"
  "v_confidence (apply_rule p r k v) = v_confidence v"
  by (simp_all add: apply_rule_def)

lemma newsletter_sel:
  "v_score (newsletter_rule f v) = v_score v + (if truthy (is_newsletter f) then - 30 else 0)"
  "v_confidence (newsletter_rule f v) = v_confidence v"
  by (simp_all add: newsletter_rule_def NEWSLETTER_PENALTY_def)

lemma auto_generated_sel:
  "v_score (auto_generated_rule f v) =
     v_score v + (if truthy (is_auto_generated f) \<and> \<not> truthy (has_calendar f) then - 20 else 0)"
  "v_confidence (auto_generated_rule f v) = v_confidence v"
  by (simp_all add: auto_generated_rule_def AUTO_GENERATED_PENALTY_def)

lemma otp_sel:
  "v_score (otp_rule f v) = v_score v + (if truthy (otp_detected f) then - 35 else 0)"
  "v_confidence (otp_rule f v) =
     (if truthy (otp_detected f) then min (v_confidence v) (6 / 10) else v_confidence v)"
  by (simp_all add: otp_rule_def OTP_PENALTY_def Let_def)

lemma relationship_sel:
  "v_score (relationship_rule f v) =
     v_score v + (if relationship_score f > 0 then relationship_score f * 30 else 0)"
  "v_confidence (relationship_rule f v) = v_confidence v"
  by (simp_all add: relationship_rule_def RELATIONSHIP_MAX_def Let_def)

lemma vip_sel:
  "v_score (vip_rule f v) = v_score v + (if truthy (is_vip_sender f) then 15 else 0)"
  "v_confidence (vip_rule f v) = v_confidence v"
  by (simp_all add: vip_rule_def VIP_SENDER_def)

lemma explicit_ask_sel:
  "v_score (explicit_ask_rule f v) = v_score v + (if truthy (explicit_ask f) then 20 else 0)"
  "v_confidence (explicit_ask_rule f v) = v_confidence v"
  by (simp_all add: explicit_ask_rule_def EXPLICIT_ASK_def)

lemma deadline_sel:
  "v_score (deadline_rule f v) =
     v_score v + (if truthy_opt (deadline_epoch f)
                  then 15 + (if urgent_deadline f then 25 else 0) else 0)"
  "v_confidence (deadline_rule f v) =
     (if truthy_opt (deadline_epoch f) \<and> urgent_deadline f
      then min (v_confidence v + 1 / 10) 1 else v_confidence v)"
  by (simp_all add: deadline_rule_def urgent_deadline_def DEADLINE_BONUS_def
        URGENT_DEADLINE_BONUS_def Let_def split: option.split)

lemma thread_sel:
  "v_score (thread_rule f v) = v_score v + (if truthy (thread_you_owe f) then 20 else 0)"
  "v_confidence (thread_rule f v) = v_confidence v"
  by (simp_all add: thread_rule_def THREAD_YOU_OWE_def)

lemma reply_sel:
  "v_score (reply_rule f v) =
     v_score v + (if reply_need_prob f > 1 / 2 then reply_need_prob f * 25 else 0)"
  "v_confidence (reply_rule f v) = v_confidence v"
  by (simp_all add: reply_rule_def REPLY_NEED_MAX_def)

lemma intent_sel:
  "v_score (intent_rule f v) =
     v_score v + (case content_intent f of
                    Some Confirm \<Rightarrow> 10 | Some Request \<Rightarrow> 5 | Some Inform \<Rightarrow> - 5 | _ \<Rightarrow> 0)"
  "v_confidence (intent_rule f v) = v_confidence v"
  by (simp_all add: intent_rule_def INTENT_CONFIRM_def INTENT_REQUEST_def INTENT_INFORM_def
        split: option.split intent.split)

lemma additive_confidence:
  "v_confidence (additive_phases f) =
     (let c = (if truthy (otp_detected f) then 6 / 10 else 8 / 10)
      in if truthy_opt (deadline_epoch f) \<and> urgent_deadline f then min (c + 1 / 10) 1 else c)"
  by (simp add: additive_phases_def initial_vars_def intent_sel reply_sel thread_sel
        deadline_sel explicit_ask_sel vip_sel relationship_sel otp_sel auto_generated_sel
        newsletter_sel Let_def)

lemma additive_score:
  "v_score (additive_phases f) =
     50 + (if truthy (is_newsletter f) then - 30 else 0)
        + (if truthy (is_auto_generated f) \<and> \<not> truthy (has_calendar f) then - 20 else 0)
        + (if truthy (otp_detected f) then - 35 else 0)
        + (if relationship_score f > 0 then relationship_score f * 30 else 0)
        + (if truthy (is_vip_sender f) then 15 else 0)
        + (if truthy (explicit_ask f) then 20 else 0)
        + (if truthy_opt (deadline_epoch f)
           then 15 + (if urgent_deadline f then 25 else 0) else 0)
        + (if truthy (thread_you_owe f) then 20 else 0)
        + (if reply_need_prob f > 1 / 2 then reply_need_prob f * 25 else 0)
        + (case content_intent f of
             Some Confirm \<Rightarrow> 10 | Some Request \<Rightarrow> 5 | Some Inform \<Rightarrow> - 5 | _ \<Rightarrow> 0)"
  unfolding additive_phases_def intent_sel reply_sel thread_sel deadline_sel explicit_ask_sel
    vip_sel relationship_sel otp_sel auto_generated_sel newsletter_sel initial_vars_def
  by simp

lemma calendar_rule_idle:
  "\<not> upcoming_event clock_ms f \<Longrightarrow> calendar_rule clock_ms f v = v"
  by (auto simp: upcoming_event_def calendar_rule_def Let_def split: option.splits)

lemma calendar_rule_fires:
  "upcoming_event clock_ms f \<Longrightarrow>
     v_score (calendar_rule clock_ms f v) = max (v_score v) 70 \<and>
     v_confidence (calendar_rule clock_ms f v) = min (v_confidence v + 15 / 100) 1"
  by (auto simp: upcoming_event_def calendar_rule_def Let_def CAT_IMPORTANT_def split: option.splits)

lemma security_sel:
  "v_score (security_rule f v) = (if security_alert f then max (v_score v) 85 else v_score v)"
  "v_confidence (security_rule f v) = (if security_alert f then 7 / 10 else v_confidence v)"
  by (simp_all add: security_rule_def CAT_URGENT_def)

lemma finalize_sel:
  "PriorityScore.score (finalize f v) = math_round (max 0 (min 100 (v_score v)))"
  "category (finalize f v) = categorize (max 0 (min 100 (v_score v)))"
  "confidence (finalize f v) = max 0 (min 1 (v_confidence v))"
  "reasoning (finalize f v) = v_reasoning v"
  "feature_weights (finalize f v) = v_featureWeights v"
  by (simp_all add: finalize_def Let_def)

lemma math_round_mono: "x \<le> y \<Longrightarrow> math_round x \<le> math_round y"
  by (simp add: math_round_def floor_mono)

lemma math_round_of_int: "math_round (of_int n) = n"
  unfolding math_round_def by linarith

subsection \<open>Range of the result\<close>

text \<open>
  Claim C1. For every feature record (and every clock reading), the score returned by
  calculatePriority is an integer between 0 and 100 and the confidence lies between 0 and 1.
  The score is an integer by its type: it is the result of Math.round.
\<close>

theorem calculatePriority_range:
  "0 \<le> PriorityScore.score (calculatePriority clock_ms f) \<and>
   PriorityScore.score (calculatePriority clock_ms f) \<le> 100 \<and>
   0 \<le> confidence (calculatePriority clock_ms f) \<and>
   confidence (calculatePriority clock_ms f) \<le> 1"
proof -
  let ?s = "max 0 (min 100 (v_score (security_rule f (calendar_rule clock_ms f (additive_phases f)))))"
  have "math_round 0 \<le> math_round ?s" by (rule math_round_mono) simp
  moreover have "math_round ?s \<le> math_round 100" by (rule math_round_mono) simp
  moreover have "math_round 0 = 0" "math_round 100 = 100" by (simp_all add: math_round_def)
  ultimately show ?thesis
    by (simp add: calculatePriority_def finalize_sel)
qed

lemmas scorer_defs =
  calculatePriority_def additive_phases_def finalize_def security_rule_def security_alert_def
  calendar_rule_def hoursToEvent_def intent_rule_def reply_rule_def thread_rule_def
  deadline_rule_def explicit_ask_rule_def vip_rule_def relationship_rule_def otp_rule_def
  auto_generated_rule_def newsletter_rule_def initial_vars_def truthy_def truthy_opt_def
  apply_rule_def weight_defs math_round_def categorize_def baseline_def

subsection \<open>Category and returned score\<close>

text \<open>
  Claim C2 says that the category and the returned score agree with the thresholds
  90/70/50/30. The category is computed from the clamped score before Math.round, the
  returned score after it: with a relationship score of 21/32 and an explicit ask the
  additive total is 89.6875, so the category is important while the returned score is 90.
\<close>

theorem category_disagrees_with_rounded_score:
  "PriorityScore.score (calculatePriority 1700000000000 near_boundary) = 90 \<and>
   category (calculatePriority 1700000000000 near_boundary) = Important"
  by (simp add: near_boundary_def scorer_defs)

subsection \<open>Dependence on the clock\<close>

text \<open>
  Claim C3 as stated (the result depends on the feature record alone, not on the
  wall-clock time) fails: the same calendar invite scores 70 one hour before the event
  and 50 a day after it.
\<close>

theorem clock_changes_result:
  "calculatePriority 1700000000000 (invite_at 1700003600) \<noteq>
   calculatePriority 1700100000000 (invite_at 1700003600)"
proof -
  have "PriorityScore.score (calculatePriority 1700000000000 (invite_at 1700003600)) = 70"
    by (simp add: invite_at_def scorer_defs)
  moreover
  have "PriorityScore.score (calculatePriority 1700100000000 (invite_at 1700003600)) = 50"
    by (simp add: invite_at_def scorer_defs)
  ultimately show ?thesis by auto
qed

text \<open>
  Claim C3, amended. The result is a function of the feature record and the clock reading,
  and the clock matters only through the calendar override: two invocations on the same
  record at clock readings at which the override does not fire (calendar flag unset, no
  start epoch, or a start that is not within the next 24 hours) return identical results.
\<close>

theorem clock_independent_without_override:
  assumes "\<not> upcoming_event c1 f" and "\<not> upcoming_event c2 f"
  shows "calculatePriority c1 f = calculatePriority c2 f"
  using assms by (simp add: calculatePriority_def calendar_rule_idle)

theorem clock_independent_without_override_witness:
  "\<not> upcoming_event 1700000000000 (invite_at 1700172800) \<and>
   \<not> upcoming_event 1700003600000 (invite_at 1700172800) \<and>
   calculatePriority 1700000000000 (invite_at 1700172800) =
   calculatePriority 1700003600000 (invite_at 1700172800)"
proof -
  have a: "\<not> upcoming_event 1700000000000 (invite_at 1700172800)"
    by (simp add: upcoming_event_def invite_at_def baseline_def hoursToEvent_def truthy_def)
  have b: "\<not> upcoming_event 1700003600000 (invite_at 1700172800)"
    by (simp add: upcoming_event_def invite_at_def baseline_def hoursToEvent_def truthy_def)
  show ?thesis using a b clock_independent_without_override [OF a b] by simp
qed

subsection \<open>The deadline bonus\<close>

text \<open>
  Claim C4 says that every record with a non-null deadline epoch gets the bonus of 15
  points. The scorer tests the epoch by truthiness under the comment "Deadline exists",
  where the minutes next to it are tested against null: a deadline at the Unix epoch,
  which extractDeadlines returns as the epoch 0 with no minutes, is not null and gets no
  bonus, no reason and no feature weight, while a deadline one second later gets all
  three.
\<close>

theorem unix_epoch_deadline_gets_no_bonus:
  "extractDeadlines 1700000000000 [Some 0, None, None, None, None, None, None] [] =
     (deadline_epoch deadline_at_unix_epoch, time_to_deadline_min deadline_at_unix_epoch) \<and>
   deadline_epoch deadline_at_unix_epoch \<noteq> None \<and>
   calculatePriority 1700000000000 deadline_at_unix_epoch =
     \<lparr>PriorityScore.email_id = ''m-3'', score = 50, category = Normal, confidence = 8 / 10,
      reasoning = [], feature_weights = []\<rparr> \<and>
   calculatePriority 1700000000000 deadline_after_unix_epoch =
     \<lparr>PriorityScore.email_id = ''m-4'', score = 65, category = Normal, confidence = 8 / 10,
      reasoning = [''Email has deadline''], feature_weights = [(''deadline_epoch'', 15)]\<rparr>"
  by (simp add: deadline_at_unix_epoch_def deadline_after_unix_epoch_def extractDeadlines_def
        keep_earliest_def scorer_defs)

text \<open>
  For every other deadline epoch the scorer does what the claim says: the additive total
  is 15 points above that of the same record without a deadline, and 40 points above it
  when the minutes to the deadline are known and below 1440, in which case the confidence
  is raised by 0.1 and capped at 1. A record with such a deadline, 30 minutes to it and
  every other field at its default scores exactly 90 and is urgent.
\<close>

lemma deadline_bonus:
  assumes "deadline_epoch f = Some d" and "d \<noteq> 0"
  shows "v_score (additive_phases f) =
           v_score (additive_phases (f\<lparr>deadline_epoch := None\<rparr>)) + 15 +
           (if urgent_deadline f then 25 else 0) \<and>
         v_confidence (additive_phases f) =
           (if urgent_deadline f
            then min (v_confidence (additive_phases (f\<lparr>deadline_epoch := None\<rparr>)) + 1 / 10) 1
            else v_confidence (additive_phases (f\<lparr>deadline_epoch := None\<rparr>))) \<and>
         PriorityScore.score (calculatePriority clock_ms
           ((baseline eid)\<lparr>deadline_epoch := Some d, time_to_deadline_min := Some 30\<rparr>)) \<ge> 90 \<and>
         category (calculatePriority clock_ms
           ((baseline eid)\<lparr>deadline_epoch := Some d, time_to_deadline_min := Some 30\<rparr>)) = Urgent"
proof -
  have s: "v_score (additive_phases f) =
           v_score (additive_phases (f\<lparr>deadline_epoch := None\<rparr>)) + 15 +
           (if urgent_deadline f then 25 else 0)"
    using assms by (simp add: additive_score truthy_opt_def urgent_deadline_def)
  have c: "v_confidence (additive_phases f) =
           (if urgent_deadline f
            then min (v_confidence (additive_phases (f\<lparr>deadline_epoch := None\<rparr>)) + 1 / 10) 1
            else v_confidence (additive_phases (f\<lparr>deadline_epoch := None\<rparr>)))"
    using assms by (simp add: additive_confidence truthy_opt_def urgent_deadline_def Let_def)
  have e: "calculatePriority clock_ms
             ((baseline eid)\<lparr>deadline_epoch := Some d, time_to_deadline_min := Some 30\<rparr>) =
           \<lparr>PriorityScore.email_id = eid, score = 90, category = Urgent, confidence = 9 / 10,
            reasoning = [''Email has deadline'', ''Deadline in 0h (urgent)''],
            feature_weights = [(''deadline_epoch'', 15), (''time_to_deadline_urgent'', 25)]\<rparr>"
    using assms(2) by (simp add: scorer_defs int_to_string_def digits_of.simps digit_char_def)
  show ?thesis using s c by (simp add: e)
qed

lemma deadline_bonus_at_30_min:
  "deadline_epoch deadline_in_30_min = Some 1700001800 \<and> (1700001800 :: int) \<noteq> 0 \<and>
   v_score (additive_phases deadline_in_30_min) = 50 + 15 + 25 \<and>
   v_confidence (additive_phases deadline_in_30_min) = 9 / 10 \<and>
   PriorityScore.score (calculatePriority 1700000000000 deadline_in_30_min) \<ge> 90 \<and>
   category (calculatePriority 1700000000000 deadline_in_30_min) = Urgent"
proof -
  have h1: "deadline_epoch deadline_in_30_min = Some 1700001800"
    by (simp add: deadline_in_30_min_def)
  have h2: "(1700001800 :: int) \<noteq> 0" by simp
  have u: "urgent_deadline deadline_in_30_min"
    by (simp add: urgent_deadline_def deadline_in_30_min_def)
  have n: "v_score (additive_phases (deadline_in_30_min\<lparr>deadline_epoch := None\<rparr>)) = 50"
          "v_confidence (additive_phases (deadline_in_30_min\<lparr>deadline_epoch := None\<rparr>)) = 8 / 10"
    by (simp_all add: deadline_in_30_min_def scorer_defs)
  have b: "(baseline ''m-7'')\<lparr>deadline_epoch := Some 1700001800, time_to_deadline_min := Some 30\<rparr>
             = deadline_in_30_min"
    by (simp add: deadline_in_30_min_def)
  show ?thesis
    using deadline_bonus [OF h1 h2, of 1700000000000 "''m-7''"] h1 u n by (simp add: b)
qed

subsection \<open>The security-alert override\<close>




subsection \<open>Single negative signals\<close>

text \<open>
  Claim C6. A record with the newsletter flag set (any non-zero value) and every other
  field at its default gets the penalty of 30 points recorded under \<^verbatim>\<open>is_newsletter\<close>, and the
  result has score 20, below 30, and category spam.
\<close>

theorem newsletter_alone_is_spam:
  assumes "flag \<noteq> 0"
  shows "calculatePriority clock_ms ((baseline eid)\<lparr>is_newsletter := flag\<rparr>) =
           \<lparr>PriorityScore.email_id = eid, score = 20, category = Spam, confidence = 8 / 10,
            reasoning = [''Newsletter detected (RFC 2369/2919)''],
            feature_weights = [(''is_newsletter'', - 30)]\<rparr> \<and>
         PriorityScore.score
           (calculatePriority clock_ms ((baseline eid)\<lparr>is_newsletter := flag\<rparr>)) < 30"
  using assms by (simp add: scorer_defs)

theorem newsletter_alone_is_spam_witness:
  "(1 :: int) \<noteq> 0 \<and>
   PriorityScore.score
     (calculatePriority 1700000000000 ((baseline ''m-8'')\<lparr>is_newsletter := 1\<rparr>)) = 20 \<and>
   category (calculatePriority 1700000000000 ((baseline ''m-8'')\<lparr>is_newsletter := 1\<rparr>)) = Spam"
proof -
  have h: "(1 :: int) \<noteq> 0" by simp
  show ?thesis using newsletter_alone_is_spam [OF h, of 1700000000000 "''m-8''"] by simp
qed

text \<open>
  Claim C7. A record with the one-time-code flag set and every other field at its default
  gets the penalty of 35 points recorded under \<^verbatim>\<open>otp_detected\<close>, and the result has score 15,
  below 30, and confidence 0.6, at most 0.6.
\<close>

theorem otp_alone_is_spam:
  assumes "flag \<noteq> 0"
  shows "calculatePriority clock_ms ((baseline eid)\<lparr>otp_detected := flag\<rparr>) =
           \<lparr>PriorityScore.email_id = eid, score = 15, category = Spam, confidence = 6 / 10,
            reasoning = [''OTP/2FA code detected (low interaction priority)''],
            feature_weights = [(''otp_detected'', - 35)]\<rparr> \<and>
         PriorityScore.score
           (calculatePriority clock_ms ((baseline eid)\<lparr>otp_detected := flag\<rparr>)) < 30 \<and>
         confidence
           (calculatePriority clock_ms ((baseline eid)\<lparr>otp_detected := flag\<rparr>)) \<le> 6 / 10"
  using assms by (simp add: scorer_defs)

theorem otp_alone_is_spam_witness:
  "(1 :: int) \<noteq> 0 \<and>
   PriorityScore.score
     (calculatePriority 1700000000000 ((baseline ''m-9'')\<lparr>otp_detected := 1\<rparr>)) = 15 \<and>
   confidence
     (calculatePriority 1700000000000 ((baseline ''m-9'')\<lparr>otp_detected := 1\<rparr>)) = 6 / 10"
proof -
  have h: "(1 :: int) \<noteq> 0" by simp
  show ?thesis using otp_alone_is_spam [OF h, of 1700000000000 "''m-9''"] by simp
qed

subsection \<open>The base confidence\<close>

text \<open>
  Claim C10. When none of the rules that touch the confidence fires (no one-time code, no
  deadline with a known time below 1440 minutes, no calendar event within 24 hours of the
  clock reading, no security-alert override), the returned confidence is the base
  confidence 0.8.
\<close>

theorem base_confidence:
  assumes "\<not> truthy (otp_detected f)"
    and "\<not> (truthy_opt (deadline_epoch f) \<and> urgent_deadline f)"
    and "\<not> upcoming_event clock_ms f"
    and "\<not> security_alert f"
  shows "confidence (calculatePriority clock_ms f) = 8 / 10"
  using assms
  by (auto simp: calculatePriority_def finalize_sel security_sel calendar_rule_idle
        additive_confidence Let_def)

theorem base_confidence_witness:
  "\<not> truthy (otp_detected far_deadline) \<and>
   \<not> (truthy_opt (deadline_epoch far_deadline) \<and> urgent_deadline far_deadline) \<and>
   \<not> upcoming_event 1700000000000 far_deadline \<and>
   \<not> security_alert far_deadline \<and>
   confidence (calculatePriority 1700000000000 far_deadline) = 8 / 10"
proof -
  have h1: "\<not> truthy (otp_detected far_deadline)"
    by (simp add: far_deadline_def baseline_def truthy_def)
  have h2: "\<not> (truthy_opt (deadline_epoch far_deadline) \<and> urgent_deadline far_deadline)"
    by (simp add: far_deadline_def baseline_def urgent_deadline_def)
  have h3: "\<not> upcoming_event 1700000000000 far_deadline"
    by (simp add: far_deadline_def baseline_def upcoming_event_def truthy_def)
  have h4: "\<not> security_alert far_deadline"
    by (simp add: far_deadline_def baseline_def security_alert_def)
  show ?thesis using base_confidence [OF h1 h2 h3 h4] h1 h2 h3 h4 by simp
qed

section \<open>Properties of the relationship scorer\<close>

text \<open>
  Claim C8. For every sender with no email received from them and none sent to them,
  calculateRelationshipScore returns the score 0.5 instead of the clamped weighted sum,
  with the manual VIP flag set and with it unset, at every clock reading.
\<close>

theorem new_sender_neutral_baseline:
  assumes "emails_received st = 0" and "emails_sent_to st = 0"
  shows "RelationshipScore.score (calculateRelationshipScore clock_ms st sender True) = 1 / 2 \<and>
         RelationshipScore.score (calculateRelationshipScore clock_ms st sender False) = 1 / 2"
  using assms by (simp add: calculateRelationshipScore_def Let_def)

theorem new_sender_neutral_baseline_witness:
  "emails_received no_history = 0 \<and> emails_sent_to no_history = 0 \<and>
   RelationshipScore.score
     (calculateRelationshipScore 1700000000000 no_history ''new@example.com'' True) = 1 / 2 \<and>
   RelationshipScore.score
     (calculateRelationshipScore 1700000000000 no_history ''new@example.com'' False) = 1 / 2"
proof -
  have h1: "emails_received no_history = 0" and h2: "emails_sent_to no_history = 0"
    by (simp_all add: no_history_def)
  show ?thesis
    using new_sender_neutral_baseline [OF h1 h2, of 1700000000000 "''new@example.com''"] h1 h2
    by simp
qed

section \<open>Properties of the urgency detection\<close>

lemma check_signals_closed:
  "check_signals pts ps text acc =
     (fst acc + pts * matched ps text,
      snd acc @ map source (filter (\<lambda>p. rx_test p text) ps))"
  by (induction ps arbitrary: acc) (simp_all add: matched_def)

subsection \<open>What the all-capitals pattern matches\<close>

text \<open>
  The matcher finds the all-capitals pattern exactly in the texts that contain a run of
  three or more capital letters with no word character directly before or after it.
\<close>

lemma run_atom_iff:
  "(q, r) \<in> set (run_atom ci a n p s) \<longleftrightarrow>
     (\<exists>w. s = w @ r \<and> n \<le> length w \<and> (\<forall>c\<in>set w. atom_ok ci a c) \<and>
          q = (if w = [] then p else Some (last w)))"
proof (induction s arbitrary: n p)
  case Nil
  then show ?case by auto
next
  case (Cons c cs)
  have "(q, r) \<in> set (run_atom ci a n p (c # cs)) \<longleftrightarrow>
          (n = 0 \<and> q = p \<and> r = c # cs) \<or>
          (atom_ok ci a c \<and> (q, r) \<in> set (run_atom ci a (n - 1) (Some c) cs))"
    by auto
  also have "\<dots> \<longleftrightarrow>
          (n = 0 \<and> q = p \<and> r = c # cs) \<or>
          (atom_ok ci a c \<and>
           (\<exists>w. cs = w @ r \<and> n - 1 \<le> length w \<and> (\<forall>c\<in>set w. atom_ok ci a c) \<and>
                q = (if w = [] then Some c else Some (last w))))"
    by (simp only: Cons.IH)
  also have "\<dots> \<longleftrightarrow>
          (\<exists>w. c # cs = w @ r \<and> n \<le> length w \<and> (\<forall>c\<in>set w. atom_ok ci a c) \<and>
               q = (if w = [] then p else Some (last w)))"
    (is "?L \<longleftrightarrow> ?R")
  proof
    assume ?L
    then show ?R
    proof
      assume "n = 0 \<and> q = p \<and> r = c # cs"
      then show ?R by (intro exI [of _ "[]"]) simp
    next
      assume h: "atom_ok ci a c \<and>
           (\<exists>w. cs = w @ r \<and> n - 1 \<le> length w \<and> (\<forall>c\<in>set w. atom_ok ci a c) \<and>
                q = (if w = [] then Some c else Some (last w)))"
      then obtain w where w: "cs = w @ r" "n - 1 \<le> length w" "\<forall>c\<in>set w. atom_ok ci a c"
        "q = (if w = [] then Some c else Some (last w))" by blast
      with h show ?R by (intro exI [of _ "c # w"]) auto
    qed
  next
    assume ?R
    then obtain w where w: "c # cs = w @ r" "n \<le> length w" "\<forall>c\<in>set w. atom_ok ci a c"
        "q = (if w = [] then p else Some (last w))" by blast
    show ?L
    proof (cases w)
      case Nil
      with w show ?thesis by simp
    next
      case (Cons x w')
      with w have "atom_ok ci a c" "cs = w' @ r" "n - 1 \<le> length w'"
        "\<forall>c\<in>set w'. atom_ok ci a c" "q = (if w' = [] then Some c else Some (last w'))"
        by auto
      then show ?thesis by blast
    qed
  qed
  finally show ?case .
qed

lemma search_iff:
  "search ci r p s \<longleftrightarrow>
     (\<exists>pre post. s = pre @ post \<and>
        rmatch ci r (if pre = [] then p else Some (last pre), post) \<noteq> [])"
proof (induction s arbitrary: p)
  case Nil
  then show ?case by simp
next
  case (Cons c cs)
  show ?case (is "?L \<longleftrightarrow> ?R")
  proof
    assume ?L
    then consider "rmatch ci r (p, c # cs) \<noteq> []" | "search ci r (Some c) cs"
      by (auto split: if_splits)
    then show ?R
    proof cases
      case 1
      then show ?thesis by (intro exI [of _ "[]"] exI [of _ "c # cs"]) simp
    next
      case 2
      then obtain pre post where pp: "cs = pre @ post"
        "rmatch ci r (if pre = [] then Some c else Some (last pre), post) \<noteq> []"
        using Cons.IH by blast
      then show ?thesis by (intro exI [of _ "c # pre"] exI [of _ post]) auto
    qed
  next
    assume ?R
    then obtain pre post where pp: "c # cs = pre @ post"
      "rmatch ci r (if pre = [] then p else Some (last pre), post) \<noteq> []" by blast
    show ?L
    proof (cases pre)
      case Nil
      with pp have "rmatch ci r (p, c # cs) \<noteq> []" by simp
      then show ?thesis by simp
    next
      case (Cons x pre')
      with pp have "cs = pre' @ post"
        "rmatch ci r (if pre' = [] then Some c else Some (last pre'), post) \<noteq> []"
        by (auto split: if_splits)
      then have "search ci r (Some c) cs" using Cons.IH by blast
      then show ?thesis by simp
    qed
  qed
qed

lemma upper_is_word: "c \<in> set UPPER \<Longrightarrow> is_word c"
  by (simp add: is_word_def)

lemma boundary_before_word:
  "is_word c \<Longrightarrow>
     at_boundary (p, c # cs) \<longleftrightarrow> \<not> (case p of None \<Rightarrow> False | Some x \<Rightarrow> is_word x)"
  by (simp add: at_boundary_def)

lemma boundary_after_word:
  "is_word c \<Longrightarrow> at_boundary (Some c, r) \<longleftrightarrow> (r = [] \<or> \<not> is_word (hd r))"
  by (cases r) (simp_all add: at_boundary_def)

lemma caps_run_starts:
  assumes "3 \<le> length w" and "set w \<subseteq> set UPPER"
  shows "at_boundary (p, w @ r) \<longleftrightarrow> \<not> (case p of None \<Rightarrow> False | Some x \<Rightarrow> is_word x)"
proof -
  from assms(1) obtain c cs where w: "w = c # cs" by (cases w) auto
  with assms(2) have "is_word c" by (auto intro: upper_is_word)
  then show ?thesis unfolding w by (simp add: boundary_before_word)
qed

lemma caps_run_stops:
  assumes "3 \<le> length w" and "set w \<subseteq> set UPPER"
  shows "at_boundary (Some (last w), r) \<longleftrightarrow> (r = [] \<or> \<not> is_word (hd r))"
proof -
  from assms(1) have "w \<noteq> []" by auto
  then have "is_word (last w)" using assms(2) by (auto intro!: upper_is_word)
  then show ?thesis by (rule boundary_after_word)
qed

lemma caps_run_ends:
  "(\<exists>q r. (q, r) \<in> set (run_atom False (Cls UPPER) 3 p t) \<and> at_boundary (q, r)) \<longleftrightarrow>
   (\<exists>w r. t = w @ r \<and> 3 \<le> length w \<and> set w \<subseteq> set UPPER \<and> at_boundary (Some (last w), r))"
  (is "?A \<longleftrightarrow> ?B")
proof
  assume ?A
  then obtain q r w where "t = w @ r" "3 \<le> length w" "\<forall>c\<in>set w. atom_ok False (Cls UPPER) c"
    "q = (if w = [] then p else Some (last w))" "at_boundary (q, r)"
    unfolding run_atom_iff by blast
  moreover from this have "w \<noteq> []" by auto
  ultimately show ?B by (intro exI [of _ w] exI [of _ r]) auto
next
  assume ?B
  then obtain w r where w: "t = w @ r" "3 \<le> length w" "set w \<subseteq> set UPPER"
    "at_boundary (Some (last w), r)" by blast
  from w(2) have "w \<noteq> []" by auto
  with w have "(Some (last w), r) \<in> set (run_atom False (Cls UPPER) 3 p t)"
    unfolding run_atom_iff by (intro exI [of _ w]) auto
  with w(4) show ?A by blast
qed

lemma all_caps_at:
  "rmatch False (body ALL_CAPS) (p, t) \<noteq> [] \<longleftrightarrow>
     (\<exists>w post. t = w @ post \<and> 3 \<le> length w \<and> set w \<subseteq> set UPPER \<and>
        \<not> (case p of None \<Rightarrow> False | Some c \<Rightarrow> is_word c) \<and>
        (post = [] \<or> \<not> is_word (hd post)))"
  (is "?L \<longleftrightarrow> ?R")
proof -
  have "?L \<longleftrightarrow> at_boundary (p, t) \<and>
          (\<exists>q r. (q, r) \<in> set (run_atom False (Cls UPPER) 3 p t) \<and> at_boundary (q, r))"
    by (auto simp: ALL_CAPS_def word_bounded_def)
  also have "\<dots> \<longleftrightarrow> at_boundary (p, t) \<and>
          (\<exists>w r. t = w @ r \<and> 3 \<le> length w \<and> set w \<subseteq> set UPPER \<and>
                 at_boundary (Some (last w), r))"
    by (simp only: caps_run_ends)
  also have "\<dots> \<longleftrightarrow> ?R"
  proof
    assume h: "at_boundary (p, t) \<and>
          (\<exists>w r. t = w @ r \<and> 3 \<le> length w \<and> set w \<subseteq> set UPPER \<and>
                 at_boundary (Some (last w), r))"
    then obtain w r where w: "t = w @ r" "3 \<le> length w" "set w \<subseteq> set UPPER"
      "at_boundary (Some (last w), r)" by blast
    from h w(1) have "at_boundary (p, w @ r)" by simp
    with w show ?R
      using caps_run_starts [OF w(2) w(3), of p r] caps_run_stops [OF w(2) w(3), of r] by blast
  next
    assume ?R
    then obtain w post where w: "t = w @ post" "3 \<le> length w" "set w \<subseteq> set UPPER"
      "\<not> (case p of None \<Rightarrow> False | Some c \<Rightarrow> is_word c)" "post = [] \<or> \<not> is_word (hd post)"
      by blast
    then have "at_boundary (p, t)" "at_boundary (Some (last w), post)"
      using caps_run_starts [OF w(2) w(3), of p post] caps_run_stops [OF w(2) w(3), of post]
      by simp_all
    with w show "at_boundary (p, t) \<and>
          (\<exists>w r. t = w @ r \<and> 3 \<le> length w \<and> set w \<subseteq> set UPPER \<and>
                 at_boundary (Some (last w), r))"
      by blast
  qed
  finally show ?thesis .
qed

lemma all_caps_occurs_iff:
  "rx_test ALL_CAPS s \<longleftrightarrow>
     (\<exists>pre w post. s = pre @ w @ post \<and> 3 \<le> length w \<and> set w \<subseteq> set UPPER \<and>
        (pre = [] \<or> \<not> is_word (last pre)) \<and> (post = [] \<or> \<not> is_word (hd post)))"
  (is "?L \<longleftrightarrow> ?R")
proof -
  have ic: "ignoreCase ALL_CAPS = False" by (simp add: ALL_CAPS_def)
  have pv: "\<not> (case (if pre = [] then None else Some (last pre)) of
                 None \<Rightarrow> False | Some c \<Rightarrow> is_word c) \<longleftrightarrow>
            (pre = [] \<or> \<not> is_word (last pre))" for pre :: string
    by simp
  have "?L \<longleftrightarrow>
        (\<exists>pre t. s = pre @ t \<and>
           (\<exists>w post. t = w @ post \<and> 3 \<le> length w \<and> set w \<subseteq> set UPPER \<and>
              (pre = [] \<or> \<not> is_word (last pre)) \<and> (post = [] \<or> \<not> is_word (hd post))))"
    unfolding rx_test_def search_iff ic all_caps_at pv ..
  also have "\<dots> \<longleftrightarrow> ?R" by blast
  finally show ?thesis .
qed

subsection \<open>The urgency level\<close>

text \<open>
  Claim C9 as stated fails on the fourth signal. The subject "FYI" is a single word, so it
  has no three consecutive capitalized words, and no tier matches: the specification's
  rule gives 0, the code gives 2, because the subject contains a word of three capital
  letters. The subject "Please Read This" has three consecutive capitalized words and
  gets 2 from the specification's rule and 0 from the code.
\<close>

theorem capitalized_words_disagree:
  "urgency_level (detectUrgency ''FYI'' '''') = 2 \<and>
   spec_urgency_level ''FYI'' '''' = 0 \<and>
   urgency_level (detectUrgency ''Please Read This'' '''') = 0 \<and>
   spec_urgency_level ''Please Read This'' '''' = 2"
  by code_simp

text \<open>
  Claim C9, amended. For every subject and body, the urgency level is the sum of 5 for each
  pattern of the critical tier that matches the subject and body joined by a newline, 3 for
  each matching pattern of the high tier, 1 for each matching pattern of the medium tier
  (a pattern listing several alternative terms counts once), and 2 when the subject
  contains a match of the all-capitals pattern (a word of three or more capital letters),
  clamped to at most 10.
\<close>

theorem urgency_level_closed_form:
  "urgency_level (detectUrgency subject bodyText) =
     min 10 (5 * matched CRITICAL (subject @ [CHR 0x0A] @ bodyText) +
             3 * matched HIGH (subject @ [CHR 0x0A] @ bodyText) +
             1 * matched MEDIUM (subject @ [CHR 0x0A] @ bodyText) +
             (if rx_test ALL_CAPS subject then 2 else 0))"
  by (simp add: detectUrgency_def Let_def check_signals_closed)

end
